theory Spec2Isabelle
  imports Main
begin

section \<open>Python values used by both modules\<close>

text \<open>
  The exceptions the two modules can raise: a missing dictionary key
  (\<^verbatim>\<open>catalogue.alert[code]\<close>, \<^verbatim>\<open>stdWarnings[code]\<close>) and a missing attribute
  (\<^verbatim>\<open>self.origErr\<close> before any \<^verbatim>\<open>setStdErr\<close>); and one they can meet, the
  error of an output stream that refuses a \<^verbatim>\<open>print\<close>.
\<close>

datatype error = KeyError | AttributeError | OSError

text \<open>Python's \<^verbatim>\<open>str\<close> of an integer: decimal digits, with a leading minus sign.\<close>

definition digit :: "nat \<Rightarrow> char" where
  "digit n = ''0123456789'' ! (n mod 10)"

fun str_nat :: "nat \<Rightarrow> string" where
  "str_nat n = (if n < 10 then [digit n] else str_nat (n div 10) @ [digit n])"

declare str_nat.simps [simp del]

definition str_int :: "int \<Rightarrow> string" where
  "str_int i = (if i < 0 then CHR ''-'' # str_nat (nat (- i)) else str_nat (nat i))"

section \<open>alerts/Alerts.py\<close>

subsection \<open>Data\<close>

text \<open>
  One value of the dictionary \<^verbatim>\<open>catalogue.alert\<close>, loaded from
  \<^verbatim>\<open>alertsCatalogue.yml\<close>: the keys \<^verbatim>\<open>code\<close>, \<^verbatim>\<open>cat\<close>, \<^verbatim>\<open>msg\<close> and \<^verbatim>\<open>url\<close>.
  The resource itself is not part of the sources, so the catalogue is a parameter
  of the model: any finite or infinite map from codes to such entries.
\<close>

record catalogue_entry =
  entry_code :: int
  entry_cat :: string
  entry_msg :: string
  entry_url :: string

type_synonym AlertCatalogue = "int \<rightharpoonup> catalogue_entry"

text \<open>
  Class \<^verbatim>\<open>AlertEntry\<close>. The related object \<^verbatim>\<open>obj\<close> is an arbitrary Python object,
  here a value of the type parameter \<^typ>\<open>'o\<close>.
\<close>

record 'o AlertEntry =
  name :: string
  code :: int
  cat :: string
  msg :: string
  url :: string
  obj :: 'o

text \<open>
  The folder \<^verbatim>\<open>alertLogs\<close>: its files as pairs of name and text, in the order in
  which the file system lists them. A file that is created is listed last.
\<close>

type_synonym directory = "(string \<times> string) list"

text \<open>
  What leaves the process, in the order in which it happens: text appended to a
  file of the log folder, and a line printed on standard output.
\<close>

datatype effect = FileWrite string string | Print string

text \<open>
  The module's state: the three module-level objects \<^verbatim>\<open>catalogue\<close>, \<^verbatim>\<open>root\<close>
  (its list \<^verbatim>\<open>alertLog\<close>) and \<^verbatim>\<open>master\<close> (the name of its \<^verbatim>\<open>alertLogFile\<close>
  inside the log folder), the log folder, the lines printed so far, and the history of
  effects.
\<close>

record 'o alerts =
  catalogue :: AlertCatalogue
  root :: "'o AlertEntry list"
  master :: string
  alertLogs :: directory
  stdout :: "string list"
  effects :: "effect list"

subsection \<open>MasterLog\<close>

text \<open>\<^verbatim>\<open>glob('*.log')\<close>: the names that end in \<^verbatim>\<open>.log\<close>.\<close>

definition is_log :: "string \<Rightarrow> bool" where
  "is_log n = (4 \<le> length n \<and> drop (length n - 4) n = ''.log'')"

definition glob_log :: "directory \<Rightarrow> string list" where
  "glob_log d = filter is_log (map fst d)"

definition os_remove :: "string \<Rightarrow> directory \<Rightarrow> directory" where
  "os_remove n d = filter (\<lambda>(f, _). f \<noteq> n) d"

text \<open>
  \<^verbatim>\<open>MasterLog.__init__\<close>. The first argument is the value of
  \<^verbatim>\<open>time.strftime("%Y.%m.%d.%H.%M.%S")\<close>; the second is the log folder, \<open>None\<close> when
  it does not exist. The result is the name \<^verbatim>\<open>alertLogFile\<close> and the folder
  afterwards. No file is opened here.
\<close>

definition alertLogFile_name :: "string \<Rightarrow> string" where
  "alertLogFile_name stamp = ''alertLogFile_'' @ stamp @ ''.log''"

definition MasterLog_init :: "string \<Rightarrow> directory option \<Rightarrow> string \<times> directory" where
  "MasterLog_init stamp logFolder =
     (let alertLogFile = alertLogFile_name stamp in
      case logFolder of
        None \<Rightarrow> (alertLogFile, [])
      | Some d \<Rightarrow>
          (let logs = glob_log d in
           if 5 \<le> length logs then (alertLogFile, os_remove (logs ! 0) d)
           else (alertLogFile, d)))"

text \<open>
  \<^verbatim>\<open>open(name, 'a+')\<close> followed by a write: the text goes to the end of the file,
  which is created when it does not exist.
\<close>

fun append_file :: "string \<Rightarrow> string \<Rightarrow> directory \<Rightarrow> directory" where
  "append_file f s [] = [(f, s)]"
| "append_file f s ((n, c) # d) =
     (if n = f then (n, c @ s) # d else (n, c) # append_file f s d)"

definition MasterLog_write :: "string \<Rightarrow> string \<Rightarrow> directory \<Rightarrow> directory" where
  "MasterLog_write alertLogFile m d = append_file alertLogFile (m @ [CHR 0x0A]) d"

text \<open>The text of a file of the folder, empty when there is no such file.\<close>

definition file_text :: "directory \<Rightarrow> string \<Rightarrow> string" where
  "file_text d f = (case map_of d f of None \<Rightarrow> [] | Some c \<Rightarrow> c)"

text \<open>
  One run of the process as far as the log folder goes: the module-level
  \<^verbatim>\<open>master = MasterLog()\<close>, then the lines written during the run, in order.
\<close>

definition master_session :: "string \<Rightarrow> directory option \<Rightarrow> string list \<Rightarrow> directory" where
  "master_session stamp logFolder lines =
     (case MasterLog_init stamp logFolder of
        (alertLogFile, d) \<Rightarrow> fold (MasterLog_write alertLogFile) lines d)"

subsection \<open>AlertEntry, AlertLog, AlertLogger\<close>

text \<open>
  \<^verbatim>\<open>AlertEntry.__init__\<close>: the four lookups \<^verbatim>\<open>catalogue.alert[code][...]\<close>. The first
  one raises a \<^verbatim>\<open>KeyError\<close> when the code is not a key of the catalogue.
\<close>

definition AlertEntry_init ::
  "AlertCatalogue \<Rightarrow> string \<Rightarrow> int \<Rightarrow> 'o \<Rightarrow> error + 'o AlertEntry" where
  "AlertEntry_init alert nm c ob =
     (case alert c of
        None \<Rightarrow> Inl KeyError
      | Some e \<Rightarrow>
          Inr \<lparr>name = nm, code = entry_code e, cat = entry_cat e, msg = entry_msg e,
               url = entry_url e, obj = ob\<rparr>)"

definition AlertLog_write :: "'o AlertEntry \<Rightarrow> 'o alerts \<Rightarrow> 'o alerts" where
  "AlertLog_write alert w = w\<lparr>root := root w @ [alert]\<rparr>"

text \<open>
  The line built in \<^verbatim>\<open>AlertLog.flush\<close>. The first argument is Python's \<^verbatim>\<open>str\<close> on
  the related object.
\<close>

definition format_alert :: "('o \<Rightarrow> string) \<Rightarrow> 'o AlertEntry \<Rightarrow> string" where
  "format_alert str i =
     ''AlertLogger: '' @ name i @ '' | '' @
     ''Code: '' @ str_int (code i) @ '' | '' @
     ''Category: '' @ cat i @ '' | '' @
     ''Message: '' @ msg i @ '' | '' @
     ''Component: '' @ str (obj i)"

definition master_write :: "string \<Rightarrow> 'o alerts \<Rightarrow> 'o alerts" where
  "master_write m w =
     w\<lparr>alertLogs := MasterLog_write (master w) m (alertLogs w),
       effects := effects w @ [FileWrite (master w) (m @ [CHR 0x0A])]\<rparr>"

definition print :: "string \<Rightarrow> 'o alerts \<Rightarrow> 'o alerts" where
  "print m w = w\<lparr>stdout := stdout w @ [m], effects := effects w @ [Print m]\<rparr>"

text \<open>The body of the loop of \<^verbatim>\<open>AlertLog.flush\<close>, over the entries still to visit.\<close>

fun flush_loop :: "('o \<Rightarrow> string) \<Rightarrow> 'o AlertEntry list \<Rightarrow> 'o alerts \<Rightarrow> 'o alerts" where
  "flush_loop str [] w = w"
| "flush_loop str (i # rest) w =
     flush_loop str rest (print (format_alert str i) (master_write (format_alert str i) w))"

definition AlertLog_flush :: "('o \<Rightarrow> string) \<Rightarrow> 'o alerts \<Rightarrow> 'o alerts" where
  "AlertLog_flush str w = (flush_loop str (root w) w)\<lparr>root := []\<rparr>"

text \<open>
  \<^verbatim>\<open>AlertLogger.write\<close>: the entry is built first; when that raises, \<^verbatim>\<open>root.write\<close>
  is not reached and the state is the one before the call.
\<close>

definition AlertLogger_write ::
  "string \<Rightarrow> int \<Rightarrow> 'o \<Rightarrow> 'o alerts \<Rightarrow> (error + unit) \<times> 'o alerts" where
  "AlertLogger_write nm c ob w =
     (case AlertEntry_init (catalogue w) nm c ob of
        Inl e \<Rightarrow> (Inl e, w)
      | Inr alert \<Rightarrow> (Inr (), AlertLog_write alert w))"

definition AlertLogger_flush :: "('o \<Rightarrow> string) \<Rightarrow> 'o alerts \<Rightarrow> 'o alerts" where
  "AlertLogger_flush str w = AlertLog_flush str w"

text \<open>
  The three assignments at the end of the module: the catalogue as loaded, an empty
  \<^verbatim>\<open>AlertLog\<close>, and the \<^verbatim>\<open>MasterLog\<close> of this run.
\<close>

definition module_init :: "AlertCatalogue \<Rightarrow> string \<Rightarrow> directory option \<Rightarrow> 'o alerts" where
  "module_init alert stamp logFolder =
     (case MasterLog_init stamp logFolder of
        (alertLogFile, d) \<Rightarrow>
          \<lparr>catalogue = alert, root = [], master = alertLogFile, alertLogs = d,
           stdout = [], effects = []\<rparr>)"

section \<open>warnings.py\<close>

subsection \<open>Data\<close>

text \<open>The dictionary \<^verbatim>\<open>stdWarnings\<close>, written out: five codes, each with a message and a note.\<close>

record std_warning =
  warning_msg :: string
  warning_info :: string

definition stdWarnings :: "int \<rightharpoonup> std_warning" where
  "stdWarnings =
     [1001 \<mapsto> \<lparr>warning_msg = ''Dropped a frame'',
               warning_info = ''PsychoPy had too much processing to do between two window.flip() commands''\<rparr>,
      1002 \<mapsto> \<lparr>warning_msg = ''The stimulus you tried to draw was incredibly small'',
               warning_info = ''Have you set the size to be, say, 0.5, with units of '' @
                 [CHR 0x27] @ ''pix'' @ [CHR 0x27]\<rparr>,
      2001 \<mapsto> \<lparr>warning_msg = ''You have a constant variable'',
               warning_info = ''Your Builder component f has a parameter that is set to be constant'' @
                 [CHR 0x0A] @ ''            but looks like a variable value''\<rparr>,
      2002 \<mapsto> \<lparr>warning_msg = ''Syntax error compiling'',
               warning_info = ''There was a syntax error while compiling your script.'' @ [CHR 0x0A] @
                 ''If you have any custom code (e.g. a code component then this is likely the source of'' @
                 [CHR 0x0A] @
                 ''the problem. If not then we might need to see the output of the error to work out what happened''\<rparr>,
      3001 \<mapsto> \<lparr>warning_msg = ''Failed to load file'',
               warning_info = ''That file failed to load''\<rparr>]"

text \<open>
  What \<^verbatim>\<open>sys.stderr\<close> can be: an instance of \<^verbatim>\<open>_BaseErrorHandler\<close>, named by its
  address, or any other object, which has no attribute \<^verbatim>\<open>receiveWarning\<close> (a text
  stream). Two targets are the same object exactly when they are equal here.
\<close>

datatype target = Stream nat | Handler nat

text \<open>
  An element of \<^verbatim>\<open>errList\<close>: the dictionary built by \<^verbatim>\<open>receiveWarning\<close> (keys
  \<^verbatim>\<open>code\<close>, \<^verbatim>\<open>obj\<close>, \<^verbatim>\<open>msg\<close>, \<^verbatim>\<open>trace\<close>) or the text given to \<^verbatim>\<open>write\<close>.
\<close>

datatype 'o err = Warning int 'o string "string list" | Text string

text \<open>
  The attributes of a handler. \<^verbatim>\<open>__init__\<close> sets \<^verbatim>\<open>errList\<close> and \<^verbatim>\<open>autoFlush\<close>;
  \<^verbatim>\<open>origErr\<close> exists only once \<^verbatim>\<open>setStdErr\<close> has run, so it is optional here.
\<close>

record 'o handler =
  errList :: "'o err list"
  autoFlush :: bool
  origErr :: "target option"

datatype level = WARNING | DEBUG

text \<open>
  The state around the module: the current \<^verbatim>\<open>sys.stderr\<close>, the handler objects by
  address, the values given to \<^verbatim>\<open>print\<close> so far, the calls made to
  \<^verbatim>\<open>logging.warning\<close> and \<^verbatim>\<open>logging.debug\<close> so far, and what
  \<^verbatim>\<open>traceback.format_stack()\<close> returns inside \<^verbatim>\<open>warn\<close> (the frame of \<^verbatim>\<open>warn\<close>
  last).
\<close>

record 'o world =
  stderr :: target
  heap :: "nat \<Rightarrow> 'o handler"
  printed :: "'o err list"
  logged :: "(level \<times> string) list"
  format_stack :: "string list"

subsection \<open>_BaseErrorHandler\<close>

definition BaseErrorHandler_init :: "nat \<Rightarrow> 'o world \<Rightarrow> 'o world" where
  "BaseErrorHandler_init self w =
     w\<lparr>heap := (heap w)(self := \<lparr>errList = [], autoFlush = True, origErr = None\<rparr>)\<rparr>"

definition setStdErr :: "nat \<Rightarrow> 'o world \<Rightarrow> 'o world" where
  "setStdErr self w =
     w\<lparr>heap := (heap w)(self := (heap w self)\<lparr>origErr := Some (stderr w)\<rparr>),
       stderr := Handler self\<rparr>"

text \<open>
  \<^verbatim>\<open>unsetStdErr\<close>: reading \<^verbatim>\<open>self.origErr\<close> raises an \<^verbatim>\<open>AttributeError\<close> when the
  attribute was never set.
\<close>

definition unsetStdErr :: "nat \<Rightarrow> 'o world \<Rightarrow> (error + unit) \<times> 'o world" where
  "unsetStdErr self w =
     (if Handler self = stderr w then
        (case origErr (heap w self) of
           None \<Rightarrow> (Inl AttributeError, w)
         | Some t \<Rightarrow> (Inr (), w\<lparr>stderr := t\<rparr>))
      else (Inr (), w))"

definition print_err :: "'o err \<Rightarrow> 'o world \<Rightarrow> 'o world" where
  "print_err e w = w\<lparr>printed := printed w @ [e]\<rparr>"

text \<open>The loop of \<^verbatim>\<open>flush\<close>, over the records still to print.\<close>

fun print_all :: "'o err list \<Rightarrow> 'o world \<Rightarrow> 'o world" where
  "print_all [] w = w"
| "print_all (e # rest) w = print_all rest (print_err e w)"

text \<open>
  \<^verbatim>\<open>flush\<close>, when every \<^verbatim>\<open>print\<close> succeeds (the general case is
  \<open>flush_or_raise\<close> below). Every handler made by \<^verbatim>\<open>__init__\<close> has the attribute
  \<^verbatim>\<open>errList\<close>, so the test \<^verbatim>\<open>hasattr(self, 'errList')\<close> succeeds.
\<close>

definition flush :: "nat \<Rightarrow> 'o world \<Rightarrow> 'o world" where
  "flush self w =
     (let w' = print_all (errList (heap w self)) w
      in w'\<lparr>heap := (heap w')(self := (heap w' self)\<lparr>errList := []\<rparr>)\<rparr>)"

definition receiveWarning ::
  "nat \<Rightarrow> int \<Rightarrow> 'o \<Rightarrow> string \<Rightarrow> string list \<Rightarrow> 'o world \<Rightarrow> 'o world" where
  "receiveWarning self c ob m tr w =
     w\<lparr>heap := (heap w)(self := (heap w self)\<lparr>errList := errList (heap w self) @ [Warning c ob m tr]\<rparr>)\<rparr>"

text \<open>
  The method \<^verbatim>\<open>write\<close> of the handler (the name \<^verbatim>\<open>write\<close> is reserved in theory
  text): the text is appended, and the list is flushed at once when \<^verbatim>\<open>autoFlush\<close>
  is set.
\<close>

definition handler_write :: "nat \<Rightarrow> string \<Rightarrow> 'o world \<Rightarrow> 'o world" where
  "handler_write self toWrite w =
     (let w' = w\<lparr>heap := (heap w)(self := (heap w self)\<lparr>errList := errList (heap w self) @ [Text toWrite]\<rparr>)\<rparr>
      in if autoFlush (heap w' self) then flush self w' else w')"

text \<open>
  \<^verbatim>\<open>print\<close> can raise: standard output may be closed or broken, and the text of a
  record is made by the \<^verbatim>\<open>__repr__\<close> of the object it holds. The first argument of
  the next three definitions says which exception, if any, \<^verbatim>\<open>print\<close> raises on a given
  record. A \<^verbatim>\<open>print\<close> that raises prints nothing and ends the loop of \<^verbatim>\<open>flush\<close>
  with that exception, before \<^verbatim>\<open>self.errList = []\<close>.
\<close>

fun print_all_or_raise ::
  "('o err \<Rightarrow> error option) \<Rightarrow> 'o err list \<Rightarrow> 'o world \<Rightarrow> (error + unit) \<times> 'o world" where
  "print_all_or_raise raises [] w = (Inr (), w)"
| "print_all_or_raise raises (e # rest) w =
     (case raises e of
        Some x \<Rightarrow> (Inl x, w)
      | None \<Rightarrow> print_all_or_raise raises rest (print_err e w))"

definition flush_or_raise ::
  "('o err \<Rightarrow> error option) \<Rightarrow> nat \<Rightarrow> 'o world \<Rightarrow> (error + unit) \<times> 'o world" where
  "flush_or_raise raises self w =
     (case print_all_or_raise raises (errList (heap w self)) w of
        (Inl x, w') \<Rightarrow> (Inl x, w')
      | (Inr _, w') \<Rightarrow>
          (Inr (), w'\<lparr>heap := (heap w')(self := (heap w' self)\<lparr>errList := []\<rparr>)\<rparr>))"

text \<open>
  \<^verbatim>\<open>__del__\<close>: the two calls, one after the other, with nothing around them. An
  exception raised inside \<^verbatim>\<open>flush\<close> leaves the method before \<^verbatim>\<open>unsetStdErr\<close> is
  reached; an exception of \<^verbatim>\<open>unsetStdErr\<close> leaves it as well.
\<close>

definition del ::
  "('o err \<Rightarrow> error option) \<Rightarrow> nat \<Rightarrow> 'o world \<Rightarrow> (error + unit) \<times> 'o world" where
  "del raises self w =
     (case flush_or_raise raises self w of
        (Inl x, w') \<Rightarrow> (Inl x, w')
      | (Inr _, w') \<Rightarrow> unsetStdErr self w')"

subsection \<open>warn\<close>

definition logging_warning :: "string \<Rightarrow> 'o world \<Rightarrow> 'o world" where
  "logging_warning s w = w\<lparr>logged := logged w @ [(WARNING, s)]\<rparr>"

definition logging_debug :: "string \<Rightarrow> 'o world \<Rightarrow> 'o world" where
  "logging_debug s w = w\<lparr>logged := logged w @ [(DEBUG, s)]\<rparr>"

text \<open>
  The first statement of \<^verbatim>\<open>warn\<close>: an empty message is replaced by the one of the
  code, and the lookup raises a \<^verbatim>\<open>KeyError\<close> for a code that \<^verbatim>\<open>stdWarnings\<close> lacks.
\<close>

definition resolve_msg :: "int \<Rightarrow> string \<Rightarrow> error + string" where
  "resolve_msg c m =
     (if m = [] then
        (case stdWarnings c of None \<Rightarrow> Inl KeyError | Some s \<Rightarrow> Inr (warning_msg s))
      else Inr m)"

text \<open>
  The second statement: no trace (\<open>None\<close>) or an empty one is replaced by the
  current stack without its last frame.
\<close>

definition resolve_trace :: "string list option \<Rightarrow> 'o world \<Rightarrow> string list" where
  "resolve_trace tr w =
     (case tr of
        None \<Rightarrow> butlast (format_stack w)
      | Some t \<Rightarrow> if t = [] then butlast (format_stack w) else t)"

definition warn ::
  "int \<Rightarrow> 'o \<Rightarrow> string \<Rightarrow> string list option \<Rightarrow> 'o world \<Rightarrow> (error + unit) \<times> 'o world" where
  "warn c ob m tr w =
     (case resolve_msg c m of
        Inl e \<Rightarrow> (Inl e, w)
      | Inr m' \<Rightarrow>
          (let trace = resolve_trace tr w in
           case stderr w of
             Handler a \<Rightarrow> (Inr (), receiveWarning a c ob m' trace w)
           | Stream _ \<Rightarrow>
               (let warnStr = str_int c @ '': '' @ m';
                    traceStr = fold (\<lambda>entry s. s @ entry) trace
                                 (''Warning trace ('' @ str_int c @ ''):'' @ [CHR 0x0A])
                in (Inr (), logging_debug traceStr (logging_warning warnStr w)))))"

text \<open>
  The state in which a program starts, for concrete runs: \<^verbatim>\<open>sys.stderr\<close> is the text
  stream of the interpreter, nothing has been printed or logged, and every handler
  object is as \<^verbatim>\<open>__init__\<close> leaves it. The argument is the stack that
  \<^verbatim>\<open>traceback.format_stack()\<close> reports.
\<close>

definition start_world :: "string list \<Rightarrow> 'o world" where
  "start_world stack =
     \<lparr>stderr = Stream 0,
      heap = (\<lambda>_. \<lparr>errList = [], autoFlush = True, origErr = None\<rparr>),
      printed = [], logged = [], format_stack = stack\<rparr>"

section \<open>The log folder\<close>

subsection \<open>Facts about the folder operations\<close>

lemma is_log_append [simp]: "is_log (s @ ''.log'')"
  by (simp add: is_log_def)

lemma glob_log_append_file:
  "glob_log (append_file f s d) =
     (if f \<in> fst ` set d then glob_log d else glob_log d @ (if is_log f then [f] else []))"
  by (induction d) (force simp: glob_log_def)+

lemma names_append_file: "fst ` set (append_file f s d) = insert f (fst ` set d)"
  by (induction d) force+

lemma names_MasterLog_write: "fst ` set (MasterLog_write f m d) = insert f (fst ` set d)"
  by (simp add: MasterLog_write_def names_append_file)

lemma glob_log_MasterLog_write:
  "glob_log (MasterLog_write f m d) =
     (if f \<in> fst ` set d then glob_log d else glob_log d @ (if is_log f then [f] else []))"
  by (simp add: MasterLog_write_def glob_log_append_file)

lemma glob_log_fold_write:
  "glob_log (fold (MasterLog_write f) lines d) =
     (if lines = [] \<or> f \<in> fst ` set d then glob_log d
      else glob_log d @ (if is_log f then [f] else []))"
proof (induction lines arbitrary: d)
  case Nil
  then show ?case by simp
next
  case (Cons l lines)
  show ?case
    by (simp add: Cons.IH glob_log_MasterLog_write names_MasterLog_write)
qed

lemma glob_log_os_remove: "glob_log (os_remove n d) = filter (\<lambda>x. x \<noteq> n) (glob_log d)"
  by (induction d) (auto simp: glob_log_def os_remove_def)

lemma names_os_remove: "fst ` set (os_remove n d) = fst ` set d - {n}"
  by (auto simp: os_remove_def image_iff)

lemma file_text_append_file:
  "file_text (append_file f s d) g = (if g = f then file_text d f @ s else file_text d g)"
  by (induction d) (auto simp: file_text_def)


lemma length_filter_neq_hd:
  "xs \<noteq> [] \<Longrightarrow> length (filter (\<lambda>x. x \<noteq> xs ! 0) xs) < length xs"
  by (cases xs) (simp_all add: le_imp_less_Suc)

lemma filter_neq_hd_distinct:
  "xs \<noteq> [] \<Longrightarrow> distinct xs \<Longrightarrow> filter (\<lambda>x. x \<noteq> xs ! 0) xs = tl xs"
  by (cases xs) (auto intro: filter_True)

lemma distinct_glob_log: "distinct (map fst d) \<Longrightarrow> distinct (glob_log d)"
  by (simp add: glob_log_def)

lemma length_os_remove:
  "distinct (map fst d) \<Longrightarrow> n \<in> fst ` set d \<Longrightarrow> Suc (length (os_remove n d)) = length d"
proof (induction d)
  case Nil
  then show ?case by simp
next
  case (Cons p d)
  obtain f c where p: "p = (f, c)" by (cases p)
  show ?case
  proof (cases "f = n")
    case True
    with Cons.prems p have "n \<notin> fst ` set d" by simp
    then have "filter (\<lambda>(g, _). g \<noteq> n) d = d"
      by (intro filter_True) force
    with True p show ?thesis by (simp add: os_remove_def)
  next
    case False
    with Cons p show ?thesis by (auto simp: os_remove_def)
  qed
qed

lemma MasterLog_init_Some:
  "MasterLog_init stamp (Some d) =
     (alertLogFile_name stamp,
      if 5 \<le> length (glob_log d) then os_remove (glob_log d ! 0) d else d)"
  by (simp add: MasterLog_init_def Let_def)

lemma MasterLog_init_None:
  "MasterLog_init stamp None = (alertLogFile_name stamp, [])"
  by (simp add: MasterLog_init_def)

lemma is_log_alertLogFile: "is_log (alertLogFile_name stamp)"
  using is_log_append [of "''alertLogFile_'' @ stamp"] by (simp add: alertLogFile_name_def)

subsection \<open>Rotation of the log files\<close>

text \<open>
  Claim C1, as the code has it. \<^verbatim>\<open>MasterLog.__init__\<close> removes one file when the
  folder lists five or more log files, and opens none; the file of the run is created
  by the first \<^verbatim>\<open>write\<close>. So: when the folder holds at most five log files before
  the run (or does not exist), at most five remain after the construction and any
  number of writes. When it holds exactly five, under distinct names none of which is
  the name of the new file, the construction removes exactly one file, the first one
  listed, and leaves four log files; after the first write the log files are these four
  followed by the file of the run, five in all.
\<close>

theorem master_session_rotation:
  assumes "length (glob_log d) \<le> 5"
  shows "length (glob_log (master_session stamp None lines)) \<le> 5
       \<and> length (glob_log (master_session stamp (Some d) lines)) \<le> 5
       \<and> (length (glob_log d) = 5 \<and> distinct (map fst d)
            \<and> alertLogFile_name stamp \<notin> fst ` set d \<longrightarrow>
          snd (MasterLog_init stamp (Some d)) = os_remove (glob_log d ! 0) d
          \<and> Suc (length (snd (MasterLog_init stamp (Some d)))) = length d
          \<and> glob_log (snd (MasterLog_init stamp (Some d))) = tl (glob_log d)
          \<and> (lines \<noteq> [] \<longrightarrow>
               glob_log (master_session stamp (Some d) lines) =
                 tl (glob_log d) @ [alertLogFile_name stamp]))"
proof (intro conjI impI)
  let ?f = "alertLogFile_name stamp"
  show "length (glob_log (master_session stamp None lines)) \<le> 5"
    by (simp add: master_session_def MasterLog_init_None glob_log_fold_write)
       (simp add: glob_log_def)
  show "length (glob_log (master_session stamp (Some d) lines)) \<le> 5"
  proof (cases "length (glob_log d) = 5")
    case True
    then have ne: "glob_log d \<noteq> []" by auto
    have "length (filter (\<lambda>x. x \<noteq> glob_log d ! 0) (glob_log d)) < 5"
      using length_filter_neq_hd [OF ne] True by simp
    with True show ?thesis
      by (simp add: master_session_def MasterLog_init_Some glob_log_fold_write
            glob_log_os_remove)
  next
    case False
    with assms have "length (glob_log d) < 5" by simp
    then show ?thesis
      by (simp add: master_session_def MasterLog_init_Some glob_log_fold_write)
  qed
next
  let ?f = "alertLogFile_name stamp"
  assume h: "length (glob_log d) = 5 \<and> distinct (map fst d) \<and> ?f \<notin> fst ` set d"
  then have ne: "glob_log d \<noteq> []" by auto
  from h have dl: "distinct (glob_log d)" by (simp add: distinct_glob_log)
  have mem: "glob_log d ! 0 \<in> fst ` set d"
  proof -
    have "glob_log d ! 0 \<in> set (glob_log d)" using ne by simp
    then show ?thesis by (auto simp: glob_log_def)
  qed
  show "snd (MasterLog_init stamp (Some d)) = os_remove (glob_log d ! 0) d"
    using h by (simp add: MasterLog_init_Some)
  show "Suc (length (snd (MasterLog_init stamp (Some d)))) = length d"
    using h mem by (simp add: MasterLog_init_Some length_os_remove)
  show "glob_log (snd (MasterLog_init stamp (Some d))) = tl (glob_log d)"
    using h by (simp add: MasterLog_init_Some glob_log_os_remove
          filter_neq_hd_distinct [OF ne dl])
  assume "lines \<noteq> []"
  then show "glob_log (master_session stamp (Some d) lines) = tl (glob_log d) @ [?f]"
    using h by (simp add: master_session_def MasterLog_init_Some glob_log_fold_write
          glob_log_os_remove filter_neq_hd_distinct [OF ne dl] names_os_remove
          is_log_alertLogFile)
qed

theorem master_session_rotation_witness:
  "length (glob_log (map (\<lambda>k. (''alertLogFile_2024.01.01.00.00.0'' @ [k] @ ''.log'', []))
             ''12345'')) = 5
   \<and> distinct (map fst (map (\<lambda>k. (''alertLogFile_2024.01.01.00.00.0'' @ [k] @ ''.log'', []))
             ''12345''))
   \<and> alertLogFile_name ''2024.01.01.00.00.06'' \<notin>
        fst ` set (map (\<lambda>k. (''alertLogFile_2024.01.01.00.00.0'' @ [k] @ ''.log'', []))
             ''12345'')
   \<and> glob_log (snd (MasterLog_init ''2024.01.01.00.00.06''
         (Some (map (\<lambda>k. (''alertLogFile_2024.01.01.00.00.0'' @ [k] @ ''.log'', []))
             ''12345'')))) =
       map (\<lambda>k. ''alertLogFile_2024.01.01.00.00.0'' @ [k] @ ''.log'') ''2345''
   \<and> glob_log (master_session ''2024.01.01.00.00.06''
         (Some (map (\<lambda>k. (''alertLogFile_2024.01.01.00.00.0'' @ [k] @ ''.log'', []))
             ''12345'')) [''line'']) =
       map (\<lambda>k. ''alertLogFile_2024.01.01.00.00.0'' @ [k] @ ''.log'') ''23456''"
proof -
  let ?d = "map (\<lambda>k. (''alertLogFile_2024.01.01.00.00.0'' @ [k] @ ''.log'', [])) ''12345''"
  let ?s = "''2024.01.01.00.00.06''"
  have h1: "length (glob_log ?d) \<le> 5" by code_simp
  have h2: "length (glob_log ?d) = 5" by code_simp
  have h3: "distinct (map fst ?d)" by code_simp
  have h4: "alertLogFile_name ?s \<notin> fst ` set ?d" by code_simp
  have h5: "[''line''] \<noteq> []" by simp
  note r = master_session_rotation [OF h1, of ?s "[''line'']"]
  from r h2 h3 h4 have a: "glob_log (snd (MasterLog_init ?s (Some ?d))) = tl (glob_log ?d)"
    by blast
  from r h2 h3 h4 h5 have b: "glob_log (master_session ?s (Some ?d) [''line'']) =
      tl (glob_log ?d) @ [alertLogFile_name ?s]"
    by blast
  have c: "tl (glob_log ?d) = map (\<lambda>k. ''alertLogFile_2024.01.01.00.00.0'' @ [k] @ ''.log'') ''2345''"
    by code_simp
  have e: "tl (glob_log ?d) @ [alertLogFile_name ?s] =
      map (\<lambda>k. ''alertLogFile_2024.01.01.00.00.0'' @ [k] @ ''.log'') ''23456''"
    by code_simp
  from a c have a': "glob_log (snd (MasterLog_init ?s (Some ?d))) =
      map (\<lambda>k. ''alertLogFile_2024.01.01.00.00.0'' @ [k] @ ''.log'') ''2345''"
    by (rule trans)
  from b e have b': "glob_log (master_session ?s (Some ?d) [''line'']) =
      map (\<lambda>k. ''alertLogFile_2024.01.01.00.00.0'' @ [k] @ ''.log'') ''23456''"
    by (rule trans)
  show ?thesis
    by (rule conjI [OF h2 conjI [OF h3 conjI [OF h4 conjI [OF a' b']]]])
qed

text \<open>
  Claim C1 as it is stated fails on a folder that lists six log files: the
  construction removes one of them and creates nothing, and the first write adds the
  file of the run, so six log files remain after the run.
\<close>

theorem master_session_six_files_counterexample:
  "length (glob_log (master_session ''2024.01.01.00.00.07''
      (Some (map (\<lambda>k. (''alertLogFile_2024.01.01.00.00.0'' @ [k] @ ''.log'', []))
         ''123456'')) [''line''])) = 6
   \<and> alertLogFile_name ''2024.01.01.00.00.07'' \<notin>
        fst ` set (snd (MasterLog_init ''2024.01.01.00.00.07''
          (Some (map (\<lambda>k. (''alertLogFile_2024.01.01.00.00.0'' @ [k] @ ''.log'', []))
             ''123456''))))"
  by code_simp

section \<open>The alert log\<close>

subsection \<open>Facts about the loop of flush\<close>

lemma flush_loop_fields:
  "root (flush_loop str es w) = root w"
  "master (flush_loop str es w) = master w"
  "catalogue (flush_loop str es w) = catalogue w"
  by (induction es arbitrary: w) (simp_all add: master_write_def print_def)

lemma flush_loop_stdout:
  "stdout (flush_loop str es w) = stdout w @ map (format_alert str) es"
  by (induction es arbitrary: w) (simp_all add: master_write_def print_def)

lemma flush_loop_effects:
  "effects (flush_loop str es w) =
     effects w @ concat (map (\<lambda>i. [FileWrite (master w) (format_alert str i @ [CHR 0x0A]),
                                     Print (format_alert str i)]) es)"
  by (induction es arbitrary: w) (simp_all add: master_write_def print_def)

lemma flush_loop_alertLogs:
  "alertLogs (flush_loop str es w) =
     fold (MasterLog_write (master w)) (map (format_alert str) es) (alertLogs w)"
  by (induction es arbitrary: w) (simp_all add: master_write_def print_def)

lemma file_text_MasterLog_write:
  "file_text (MasterLog_write f m d) f = file_text d f @ m @ [CHR 0x0A]"
  by (simp add: MasterLog_write_def file_text_append_file)

lemma file_text_fold_write:
  "file_text (fold (MasterLog_write f) ms d) f =
     file_text d f @ concat (map (\<lambda>m. m @ [CHR 0x0A]) ms)"
  by (induction ms arbitrary: d) (simp_all add: file_text_MasterLog_write)

lemma fold_AlertLog_write:
  "fold AlertLog_write entries w = w\<lparr>root := root w @ entries\<rparr>"
  by (induction entries arbitrary: w) (simp_all add: AlertLog_write_def)

subsection \<open>Flushing\<close>

text \<open>
  Claim C2. Entries written to the \<^verbatim>\<open>AlertLog\<close> one after the other are appended to
  its list. A flush then handles the buffered entries in the order of insertion: for
  each one the formatted line goes first to the file of the \<^verbatim>\<open>MasterLog\<close> (with a
  newline) and then to the terminal. So the printed lines are the formatted entries in
  order, the log file has grown by the same lines in the same order, the history of
  effects alternates file write and print entry by entry, and the list is empty
  afterwards.
\<close>

theorem AlertLog_flush_in_order:
  "root (fold AlertLog_write entries w) = root w @ entries
   \<and> root (AlertLog_flush str (fold AlertLog_write entries w)) = []
   \<and> stdout (AlertLog_flush str (fold AlertLog_write entries w)) =
       stdout w @ map (format_alert str) (root w @ entries)
   \<and> file_text (alertLogs (AlertLog_flush str (fold AlertLog_write entries w))) (master w) =
       file_text (alertLogs w) (master w) @
       concat (map (\<lambda>i. format_alert str i @ [CHR 0x0A]) (root w @ entries))
   \<and> effects (AlertLog_flush str (fold AlertLog_write entries w)) =
       effects w @
       concat (map (\<lambda>i. [FileWrite (master w) (format_alert str i @ [CHR 0x0A]),
                          Print (format_alert str i)]) (root w @ entries))"
  by (simp add: fold_AlertLog_write AlertLog_flush_def flush_loop_stdout flush_loop_effects
        flush_loop_alertLogs file_text_fold_write comp_def)

text \<open>
  Claim C8. Flushing an \<^verbatim>\<open>AlertLog\<close> whose list is empty changes nothing: no text
  reaches the log folder or the terminal and the list stays empty. A flush leaves the
  list empty, so a second flush right after a flush has no further effect.
\<close>

theorem AlertLog_flush_empty:
  "(root w = [] \<longrightarrow> AlertLog_flush str w = w)
   \<and> AlertLog_flush str (AlertLog_flush str w) = AlertLog_flush str w"
  by (simp add: AlertLog_flush_def flush_loop_fields)

theorem AlertLog_flush_empty_witness:
  "root (module_init Map.empty ''2024.01.01.00.00.01'' None :: unit alerts) = []
   \<and> AlertLog_flush (\<lambda>_. ''obj'')
        (module_init Map.empty ''2024.01.01.00.00.01'' None :: unit alerts) =
       module_init Map.empty ''2024.01.01.00.00.01'' None"
proof -
  have h: "root (module_init Map.empty ''2024.01.01.00.00.01'' None :: unit alerts) = []"
    by (simp add: module_init_def MasterLog_init_def)
  with AlertLog_flush_empty
    [of "module_init Map.empty ''2024.01.01.00.00.01'' None :: unit alerts" "\<lambda>_. ''obj''"]
  show ?thesis by blast
qed

subsection \<open>Building an entry\<close>

text \<open>
  Claim C7. For a code that is a key of the catalogue, \<^verbatim>\<open>AlertEntry.__init__\<close>
  succeeds and the entry's category, message and URL (and its code) are those of the
  catalogue's entry for that code.
\<close>

theorem AlertEntry_init_matches_catalogue:
  assumes "alert c = Some e"
  shows "AlertEntry_init alert nm c ob =
           Inr \<lparr>name = nm, code = entry_code e, cat = entry_cat e, msg = entry_msg e,
                url = entry_url e, obj = ob\<rparr>
       \<and> (\<exists>a. AlertEntry_init alert nm c ob = Inr a \<and> cat a = entry_cat e
              \<and> msg a = entry_msg e \<and> url a = entry_url e)"
  using assms by (simp add: AlertEntry_init_def)

theorem AlertEntry_init_matches_catalogue_witness:
  "[2001 \<mapsto> \<lparr>entry_code = 2001, entry_cat = ''Builder'', entry_msg = ''Check the size'',
               entry_url = ''https://psychopy.org''\<rparr>] (2001::int) =
     Some \<lparr>entry_code = 2001, entry_cat = ''Builder'', entry_msg = ''Check the size'',
               entry_url = ''https://psychopy.org''\<rparr>
   \<and> AlertEntry_init
        [2001 \<mapsto> \<lparr>entry_code = 2001, entry_cat = ''Builder'', entry_msg = ''Check the size'',
               entry_url = ''https://psychopy.org''\<rparr>] ''Builder'' 2001 ''TextComponent1'' =
       Inr \<lparr>name = ''Builder'', code = 2001, cat = ''Builder'', msg = ''Check the size'',
            url = ''https://psychopy.org'', obj = ''TextComponent1''\<rparr>"
proof -
  have h: "[2001 \<mapsto> \<lparr>entry_code = 2001, entry_cat = ''Builder'', entry_msg = ''Check the size'',
               entry_url = ''https://psychopy.org''\<rparr>] (2001::int) =
     Some \<lparr>entry_code = 2001, entry_cat = ''Builder'', entry_msg = ''Check the size'',
               entry_url = ''https://psychopy.org''\<rparr>"
    by simp
  from AlertEntry_init_matches_catalogue
    [where alert = "[2001 \<mapsto> \<lparr>entry_code = 2001, entry_cat = ''Builder'',
               entry_msg = ''Check the size'', entry_url = ''https://psychopy.org''\<rparr>]"
       and c = 2001 and nm = "''Builder''" and ob = "''TextComponent1''", OF h] h
  show ?thesis by simp
qed

section \<open>Standard error, handlers and warnings\<close>

subsection \<open>Facts about flush and the trace text\<close>

lemma print_all_eq: "print_all es w = w\<lparr>printed := printed w @ es\<rparr>"
  by (induction es arbitrary: w) (simp_all add: print_err_def)

lemma flush_eq:
  "flush self w =
     w\<lparr>printed := printed w @ errList (heap w self),
       heap := (heap w)(self := (heap w self)\<lparr>errList := []\<rparr>)\<rparr>"
  by (simp add: flush_def print_all_eq Let_def)

lemma fold_append_concat: "fold (\<lambda>entry s. s @ entry) tr s0 = s0 @ concat tr"
  by (induction tr arbitrary: s0) simp_all

lemma unset_fixed:
  "stderr w = Handler self \<Longrightarrow> unsetStdErr self (setStdErr self w) = (Inr (), setStdErr self w)"
  by (simp add: unsetStdErr_def setStdErr_def)

lemma funpow_fixed: "f x = x \<Longrightarrow> (f ^^ n) x = x"
  by (induction n) simp_all

subsection \<open>Unknown codes\<close>

text \<open>
  Claim C3. For a code that is not a key of the catalogue, \<^verbatim>\<open>AlertEntry.__init__\<close>
  raises the \<^verbatim>\<open>KeyError\<close> of the lookup, and so does \<^verbatim>\<open>AlertLogger.write\<close>, which
  leaves the state as it was: nothing is appended to the \<^verbatim>\<open>AlertLog\<close>, nothing is
  written or printed. For a code that is not a key of \<^verbatim>\<open>stdWarnings\<close>, \<^verbatim>\<open>warn\<close>
  called with an empty message raises the same error and leaves the state as it was:
  no handler receives a record and nothing is logged.
\<close>

theorem unknown_code_fails:
  "(alert c = None \<longrightarrow> AlertEntry_init alert nm c ob = Inl KeyError)
   \<and> (catalogue a c = None \<longrightarrow> AlertLogger_write nm c ob a = (Inl KeyError, a))
   \<and> (stdWarnings c = None \<longrightarrow> warn c ob [] tr w = (Inl KeyError, w))"
  by (simp add: AlertEntry_init_def AlertLogger_write_def warn_def resolve_msg_def)

theorem unknown_code_fails_witness:
  "(Map.empty :: AlertCatalogue) 9999 = None
   \<and> catalogue (module_init Map.empty ''2024.01.01.00.00.01'' None :: unit alerts) 9999 = None
   \<and> stdWarnings 9999 = None
   \<and> AlertEntry_init Map.empty ''Builder'' 9999 () = Inl KeyError
   \<and> AlertLogger_write ''Builder'' 9999 ()
        (module_init Map.empty ''2024.01.01.00.00.01'' None) =
       (Inl KeyError, module_init Map.empty ''2024.01.01.00.00.01'' None)
   \<and> warn 9999 () [] None (start_world [''frame'', ''warn'']) =
       (Inl KeyError, start_world [''frame'', ''warn''])"
proof -
  have h1: "(Map.empty :: AlertCatalogue) 9999 = None" by simp
  have h2: "catalogue (module_init Map.empty ''2024.01.01.00.00.01'' None :: unit alerts) 9999 = None"
    by (simp add: module_init_def MasterLog_init_def)
  have h3: "stdWarnings 9999 = None" by (simp add: stdWarnings_def)
  from unknown_code_fails
    [of Map.empty 9999 "''Builder''" "()"
        "module_init Map.empty ''2024.01.01.00.00.01'' None" None
        "start_world [''frame'', ''warn'']"] h1 h2 h3
  show ?thesis by blast
qed

subsection \<open>Installing and removing a handler\<close>

text \<open>
  Claim C6. For every handler and every state, \<^verbatim>\<open>setStdErr\<close> followed by
  \<^verbatim>\<open>unsetStdErr\<close> succeeds and leaves \<^verbatim>\<open>sys.stderr\<close> exactly as it was before the
  install. \<^verbatim>\<open>unsetStdErr\<close> changes nothing when the handler is not the current
  \<^verbatim>\<open>sys.stderr\<close>; when it is, \<^verbatim>\<open>sys.stderr\<close> becomes the remembered target.
\<close>

theorem setStdErr_unsetStdErr_restores:
  "unsetStdErr self (setStdErr self w) = (Inr (), (setStdErr self w)\<lparr>stderr := stderr w\<rparr>)
   \<and> stderr (snd (unsetStdErr self (setStdErr self w))) = stderr w
   \<and> (stderr w \<noteq> Handler self \<longrightarrow> unsetStdErr self w = (Inr (), w))
   \<and> (stderr w = Handler self \<longrightarrow> origErr (heap w self) = Some t \<longrightarrow>
        unsetStdErr self w = (Inr (), w\<lparr>stderr := t\<rparr>))"
  by (auto simp: unsetStdErr_def setStdErr_def)

theorem setStdErr_unsetStdErr_restores_witness:
  "stderr (BaseErrorHandler_init 0 (start_world [] :: unit world)) \<noteq> Handler 0
   \<and> unsetStdErr 0 (BaseErrorHandler_init 0 (start_world [] :: unit world)) =
       (Inr (), BaseErrorHandler_init 0 (start_world []))
   \<and> stderr (setStdErr 0 (BaseErrorHandler_init 0 (start_world [] :: unit world))) = Handler 0
   \<and> origErr (heap (setStdErr 0 (BaseErrorHandler_init 0 (start_world [] :: unit world))) 0) =
       Some (Stream 0)
   \<and> stderr (snd (unsetStdErr 0 (setStdErr 0 (BaseErrorHandler_init 0 (start_world [] :: unit world))))) =
       Stream 0"
proof -
  let ?w = "BaseErrorHandler_init 0 (start_world [] :: unit world)"
  have h1: "stderr ?w \<noteq> Handler 0"
    by (simp add: BaseErrorHandler_init_def start_world_def)
  have h2: "stderr (setStdErr 0 ?w) = Handler 0"
    by (simp add: setStdErr_def)
  have h3: "origErr (heap (setStdErr 0 ?w) 0) = Some (Stream 0)"
    by (simp add: setStdErr_def BaseErrorHandler_init_def start_world_def)
  have a: "unsetStdErr 0 ?w = (Inr (), ?w)"
    using setStdErr_unsetStdErr_restores [of 0 ?w] h1 by blast
  have b: "unsetStdErr 0 (setStdErr 0 ?w) = (Inr (), (setStdErr 0 ?w)\<lparr>stderr := Stream 0\<rparr>)"
    using setStdErr_unsetStdErr_restores [of 0 "setStdErr 0 ?w" "Stream 0"] h2 h3 by blast
  have c: "stderr (snd (unsetStdErr 0 (setStdErr 0 ?w))) = Stream 0"
    by (simp add: b)
  show ?thesis
    by (rule conjI [OF h1 conjI [OF a conjI [OF h2 conjI [OF h3 c]]]])
qed

text \<open>
  Claim C10. When a handler that is already the current \<^verbatim>\<open>sys.stderr\<close> calls
  \<^verbatim>\<open>setStdErr\<close> again, the target it remembers becomes the handler itself. From then
  on \<^verbatim>\<open>unsetStdErr\<close> succeeds and changes nothing, however often it is called:
  \<^verbatim>\<open>sys.stderr\<close> stays the handler and never becomes any other target again, so the
  target in place before the first install is not restored.
\<close>

theorem reentrant_setStdErr_loses_target:
  assumes "stderr w = Handler self"
  shows "origErr (heap (setStdErr self w) self) = Some (Handler self)
       \<and> stderr (setStdErr self w) = Handler self
       \<and> unsetStdErr self (setStdErr self w) = (Inr (), setStdErr self w)
       \<and> (\<forall>n. ((\<lambda>v. snd (unsetStdErr self v)) ^^ n) (setStdErr self w) = setStdErr self w)
       \<and> (\<forall>n t. t \<noteq> Handler self \<longrightarrow>
            stderr (((\<lambda>v. snd (unsetStdErr self v)) ^^ n) (setStdErr self w)) \<noteq> t)"
proof -
  have fx: "snd (unsetStdErr self (setStdErr self w)) = setStdErr self w"
    using assms by (simp add: unset_fixed)
  have it: "((\<lambda>v. snd (unsetStdErr self v)) ^^ n) (setStdErr self w) = setStdErr self w" for n
    by (rule funpow_fixed) (rule fx)
  have s: "stderr (setStdErr self w) = Handler self"
    by (simp add: setStdErr_def)
  show ?thesis
    using assms it s by (simp add: unset_fixed) (simp add: setStdErr_def)
qed

theorem reentrant_setStdErr_loses_target_witness:
  "stderr (setStdErr 0 (BaseErrorHandler_init 0 (start_world [] :: unit world))) = Handler 0
   \<and> origErr (heap (setStdErr 0 (setStdErr 0 (BaseErrorHandler_init 0
         (start_world [] :: unit world)))) 0) = Some (Handler 0)
   \<and> stderr (snd (unsetStdErr 0 (setStdErr 0 (setStdErr 0 (BaseErrorHandler_init 0
         (start_world [] :: unit world)))))) = Handler 0"
proof -
  let ?w = "setStdErr 0 (BaseErrorHandler_init 0 (start_world [] :: unit world))"
  have h: "stderr ?w = Handler 0" by (simp add: setStdErr_def)
  note r = reentrant_setStdErr_loses_target [OF h]
  from r have a: "origErr (heap (setStdErr 0 ?w) 0) = Some (Handler 0)" by blast
  from r have b: "unsetStdErr 0 (setStdErr 0 ?w) = (Inr (), setStdErr 0 ?w)" by blast
  from r have c: "stderr (setStdErr 0 ?w) = Handler 0" by blast
  have d: "stderr (snd (unsetStdErr 0 (setStdErr 0 ?w))) = Handler 0"
    by (simp add: b c)
  show ?thesis
    by (rule conjI [OF h conjI [OF a d]])
qed

subsection \<open>Pending records\<close>

text \<open>
  Claim C9, as the code has it. \<^verbatim>\<open>receiveWarning\<close> appends a structured record to
  the handler's list and prints nothing. \<^verbatim>\<open>write\<close> appends the text as a raw record;
  when \<^verbatim>\<open>autoFlush\<close> is off the record stays in the list and nothing is printed, and
  when \<^verbatim>\<open>autoFlush\<close> is on, as \<^verbatim>\<open>__init__\<close> sets it, \<^verbatim>\<open>write\<close> flushes at once:
  every pending record and then the new one are printed, in order, and the list is
  empty. \<^verbatim>\<open>flush\<close> prints each pending record in order and empties the list.
\<close>

theorem handler_accumulates:
  "errList (heap (receiveWarning self c ob m tr w) self) =
      errList (heap w self) @ [Warning c ob m tr]
   \<and> printed (receiveWarning self c ob m tr w) = printed w
   \<and> (\<not> autoFlush (heap w self) \<longrightarrow>
        errList (heap (handler_write self t w) self) = errList (heap w self) @ [Text t]
        \<and> printed (handler_write self t w) = printed w)
   \<and> (autoFlush (heap w self) \<longrightarrow>
        errList (heap (handler_write self t w) self) = []
        \<and> printed (handler_write self t w) = printed w @ errList (heap w self) @ [Text t])
   \<and> errList (heap (flush self w) self) = []
   \<and> printed (flush self w) = printed w @ errList (heap w self)
   \<and> autoFlush (heap (BaseErrorHandler_init self w) self)"
  by (simp add: receiveWarning_def handler_write_def flush_eq BaseErrorHandler_init_def Let_def)

theorem handler_accumulates_witness:
  "autoFlush (heap (BaseErrorHandler_init 0 (start_world [] :: unit world)) 0)
   \<and> errList (heap (handler_write 0 ''Traceback''
        (BaseErrorHandler_init 0 (start_world [] :: unit world))) 0) = []
   \<and> printed (handler_write 0 ''Traceback''
        (BaseErrorHandler_init 0 (start_world [] :: unit world))) = [Text ''Traceback'']
   \<and> \<not> autoFlush (heap ((start_world [] :: unit world)
        \<lparr>heap := (\<lambda>_. \<lparr>errList = [], autoFlush = False, origErr = None\<rparr>)\<rparr>) 0)
   \<and> errList (heap (handler_write 0 ''Traceback'' ((start_world [] :: unit world)
        \<lparr>heap := (\<lambda>_. \<lparr>errList = [], autoFlush = False, origErr = None\<rparr>)\<rparr>)) 0) =
       [Text ''Traceback'']
   \<and> printed (handler_write 0 ''Traceback'' ((start_world [] :: unit world)
        \<lparr>heap := (\<lambda>_. \<lparr>errList = [], autoFlush = False, origErr = None\<rparr>)\<rparr>)) = []"
proof -
  let ?w = "BaseErrorHandler_init 0 (start_world [] :: unit world)"
  let ?v = "(start_world [] :: unit world)
        \<lparr>heap := (\<lambda>_. \<lparr>errList = [], autoFlush = False, origErr = None\<rparr>)\<rparr>"
  have h1: "autoFlush (heap ?w 0)" by (simp add: BaseErrorHandler_init_def)
  have h2: "\<not> autoFlush (heap ?v 0)" by simp
  have e1: "errList (heap ?w 0) = []" by (simp add: BaseErrorHandler_init_def)
  have p1: "printed ?w = []" by (simp add: BaseErrorHandler_init_def start_world_def)
  have e2: "errList (heap ?v 0) = []" by simp
  have p2: "printed ?v = []" by (simp add: start_world_def)
  from handler_accumulates [of 0 _ _ _ _ ?w "''Traceback''"] h1
  have a: "errList (heap (handler_write 0 ''Traceback'' ?w) 0) = []"
    and b: "printed (handler_write 0 ''Traceback'' ?w) =
        printed ?w @ errList (heap ?w 0) @ [Text ''Traceback'']"
    by blast+
  from handler_accumulates [of 0 _ _ _ _ ?v "''Traceback''"] h2
  have c: "errList (heap (handler_write 0 ''Traceback'' ?v) 0) =
        errList (heap ?v 0) @ [Text ''Traceback'']"
    and d: "printed (handler_write 0 ''Traceback'' ?v) = printed ?v"
    by blast+
  have b': "printed (handler_write 0 ''Traceback'' ?w) = [Text ''Traceback'']"
    by (simp only: b e1 p1 append_Nil)
  have c': "errList (heap (handler_write 0 ''Traceback'' ?v) 0) = [Text ''Traceback'']"
    by (simp only: c e2 append_Nil)
  have d': "printed (handler_write 0 ''Traceback'' ?v) = []"
    by (simp only: d p2)
  show ?thesis
    by (rule conjI [OF h1 conjI [OF a conjI [OF b' conjI [OF h2 conjI [OF c' d']]]]])
qed

text \<open>
  Claim C9 as it is stated fails on a handler fresh from \<^verbatim>\<open>__init__\<close>: after one
  \<^verbatim>\<open>receiveWarning\<close> and one \<^verbatim>\<open>write\<close>, with no call of \<^verbatim>\<open>flush\<close> by the caller,
  both records have been printed and the list is empty.
\<close>

theorem handler_write_flushes_counterexample:
  "errList (heap (handler_write 0 ''Traceback''
      (receiveWarning 0 1001 () ''Dropped a frame'' [''frame'']
        (BaseErrorHandler_init 0 (start_world [])))) 0) = []
   \<and> printed (handler_write 0 ''Traceback''
      (receiveWarning 0 1001 () ''Dropped a frame'' [''frame'']
        (BaseErrorHandler_init 0 (start_world [])))) =
       [Warning 1001 () ''Dropped a frame'' [''frame''], Text ''Traceback'']"
  by (simp add: handler_write_def receiveWarning_def BaseErrorHandler_init_def start_world_def
        flush_def print_err_def Let_def)

subsection \<open>Teardown\<close>

lemma print_all_or_raise_ok:
  "\<forall>e \<in> set es. raises e = None \<Longrightarrow>
     print_all_or_raise raises es w = (Inr (), w\<lparr>printed := printed w @ es\<rparr>)"
  by (induction es arbitrary: w) (simp_all add: print_err_def)

lemma print_all_or_raise_stops:
  "\<forall>d \<in> set pre. raises d = None \<Longrightarrow> raises e = Some x \<Longrightarrow>
     print_all_or_raise raises (pre @ e # rest) w = (Inl x, w\<lparr>printed := printed w @ pre\<rparr>)"
  by (induction pre arbitrary: w) (simp_all add: print_err_def)

lemma flush_or_raise_ok:
  "\<forall>e \<in> set (errList (heap w self)). raises e = None \<Longrightarrow>
     flush_or_raise raises self w = (Inr (), flush self w)"
  by (simp add: flush_or_raise_def print_all_or_raise_ok flush_eq)

lemma flush_or_raise_stops:
  "errList (heap w self) = pre @ e # rest \<Longrightarrow> \<forall>d \<in> set pre. raises d = None \<Longrightarrow>
   raises e = Some x \<Longrightarrow>
     flush_or_raise raises self w = (Inl x, w\<lparr>printed := printed w @ pre\<rparr>)"
  by (simp add: flush_or_raise_def print_all_or_raise_stops)

lemma first_raising:
  "\<exists>e \<in> set es. raises e \<noteq> None \<Longrightarrow>
     \<exists>pre e rest x. es = pre @ e # rest \<and> (\<forall>d \<in> set pre. raises d = None) \<and> raises e = Some x"
proof (induction es)
  case Nil
  then show ?case by simp
next
  case (Cons a es)
  show ?case
  proof (cases "raises a")
    case (Some x)
    then have "a # es = [] @ a # es \<and> (\<forall>d \<in> set []. raises d = None) \<and> raises a = Some x"
      by simp
    then show ?thesis by blast
  next
    case None
    with Cons.prems have "\<exists>e \<in> set es. raises e \<noteq> None" by auto
    from Cons.IH [OF this] obtain dn e rest x
      where "es = dn @ e # rest" "\<forall>d \<in> set dn. raises d = None" "raises e = Some x"
      by blast
    with None have "a # es = (a # dn) @ e # rest \<and> (\<forall>d \<in> set (a # dn). raises d = None)
        \<and> raises e = Some x"
      by simp
    then show ?thesis by blast
  qed
qed

text \<open>
  Claim C4, as the code has it. \<^verbatim>\<open>__del__\<close> flushes and then calls
  \<^verbatim>\<open>unsetStdErr\<close>, in that order, and nothing in it catches an exception. When a
  \<^verbatim>\<open>print\<close> of the flush raises, the teardown raises that exception: the records
  before the failing one have been printed, the list is not cleared, \<^verbatim>\<open>unsetStdErr\<close>
  is not reached and \<^verbatim>\<open>sys.stderr\<close> is as before. When no \<^verbatim>\<open>print\<close> raises, the
  pending records are printed in order, the list is emptied, and the outcome of the
  teardown is the outcome of \<^verbatim>\<open>unsetStdErr\<close>, an exception included: the teardown
  ends without raising and leaves \<^verbatim>\<open>sys.stderr\<close> untouched when the handler is not
  the current \<^verbatim>\<open>sys.stderr\<close>, and it ends without raising with the remembered target
  as \<^verbatim>\<open>sys.stderr\<close> again when the handler is current and remembers one. Altogether the
  teardown ends without raising exactly when neither of its two calls fails.
\<close>

theorem del_flushes_then_restores:
  "(errList (heap w self) = pre @ e # rest \<longrightarrow> (\<forall>d \<in> set pre. raises d = None) \<longrightarrow>
      raises e = Some x \<longrightarrow>
        del raises self w = (Inl x, w\<lparr>printed := printed w @ pre\<rparr>))
   \<and> ((\<forall>r \<in> set (errList (heap w self)). raises r = None) \<longrightarrow>
        del raises self w = unsetStdErr self (flush self w)
        \<and> printed (snd (del raises self w)) = printed w @ errList (heap w self)
        \<and> errList (heap (snd (del raises self w)) self) = []
        \<and> (stderr w \<noteq> Handler self \<longrightarrow> del raises self w = (Inr (), flush self w))
        \<and> (stderr w = Handler self \<longrightarrow> origErr (heap w self) = Some t \<longrightarrow>
             del raises self w = (Inr (), (flush self w)\<lparr>stderr := t\<rparr>)))
   \<and> (fst (del raises self w) = Inr () \<longleftrightarrow>
        (\<forall>r \<in> set (errList (heap w self)). raises r = None)
        \<and> (stderr w = Handler self \<longrightarrow> origErr (heap w self) \<noteq> None))"
proof (intro conjI impI)
  assume "errList (heap w self) = pre @ e # rest" "\<forall>d \<in> set pre. raises d = None"
    "raises e = Some x"
  then show "del raises self w = (Inl x, w\<lparr>printed := printed w @ pre\<rparr>)"
    by (simp add: del_def flush_or_raise_stops)
next
  assume ok: "\<forall>r \<in> set (errList (heap w self)). raises r = None"
  then have d: "del raises self w = unsetStdErr self (flush self w)"
    by (simp add: del_def flush_or_raise_ok)
  show "del raises self w = unsetStdErr self (flush self w)" by (rule d)
  show "printed (snd (del raises self w)) = printed w @ errList (heap w self)"
    by (auto simp: d unsetStdErr_def flush_eq split: option.splits)
  show "errList (heap (snd (del raises self w)) self) = []"
    by (auto simp: d unsetStdErr_def flush_eq split: option.splits)
  show "del raises self w = (Inr (), flush self w)" if "stderr w \<noteq> Handler self"
    using that by (auto simp: d unsetStdErr_def flush_eq)
  show "del raises self w = (Inr (), (flush self w)\<lparr>stderr := t\<rparr>)"
    if "stderr w = Handler self" "origErr (heap w self) = Some t"
    using that by (simp add: d unsetStdErr_def flush_eq)
next
  show "fst (del raises self w) = Inr () \<longleftrightarrow>
        (\<forall>r \<in> set (errList (heap w self)). raises r = None)
        \<and> (stderr w = Handler self \<longrightarrow> origErr (heap w self) \<noteq> None)"
  proof (cases "\<forall>r \<in> set (errList (heap w self)). raises r = None")
    case True
    then have d: "del raises self w = unsetStdErr self (flush self w)"
      by (simp add: del_def flush_or_raise_ok)
    show ?thesis
      using True by (auto simp: d unsetStdErr_def flush_eq split: option.splits)
  next
    case False
    then have "\<exists>r \<in> set (errList (heap w self)). raises r \<noteq> None" by blast
    from first_raising [OF this] obtain dn r rest' y
      where "errList (heap w self) = dn @ r # rest'" "\<forall>d \<in> set dn. raises d = None"
        "raises r = Some y"
      by blast
    then have "del raises self w = (Inl y, w\<lparr>printed := printed w @ dn\<rparr>)"
      by (simp add: del_def flush_or_raise_stops)
    with False show ?thesis by simp
  qed
qed

theorem del_flushes_then_restores_witness:
  "errList (heap (snd (warn 2002 () [] None
       (setStdErr 0 (BaseErrorHandler_init 0 (start_world [''frame'', ''warn''])))))
       0) =
     [] @ Warning 2002 () ''Syntax error compiling'' [''frame''] # []
   \<and> del (\<lambda>_. Some OSError) 0 (snd (warn 2002 () [] None
       (setStdErr 0 (BaseErrorHandler_init 0 (start_world [''frame'', ''warn'']))))) =
      (Inl OSError, (snd (warn 2002 () [] None
       (setStdErr 0 (BaseErrorHandler_init 0 (start_world [''frame'', ''warn''])))))
         \<lparr>printed := printed (snd (warn 2002 () [] None
       (setStdErr 0 (BaseErrorHandler_init 0 (start_world [''frame'', ''warn'']))))) @ []\<rparr>)
   \<and> stderr (receiveWarning 0 1001 () ''Dropped a frame'' [''frame'']
      (BaseErrorHandler_init 0 (start_world []))) \<noteq> Handler 0
   \<and> fst (del (\<lambda>_. None) 0 (receiveWarning 0 1001 () ''Dropped a frame'' [''frame'']
      (BaseErrorHandler_init 0 (start_world [])))) = Inr ()
   \<and> stderr (setStdErr 0 (receiveWarning 0 1001 () ''Dropped a frame'' [''frame'']
      (BaseErrorHandler_init 0 (start_world [])))) = Handler 0
   \<and> origErr (heap (setStdErr 0 (receiveWarning 0 1001 () ''Dropped a frame'' [''frame'']
      (BaseErrorHandler_init 0 (start_world [])))) 0) = Some (Stream 0)
   \<and> del (\<lambda>_. None) 0 (setStdErr 0 (receiveWarning 0 1001 () ''Dropped a frame'' [''frame'']
      (BaseErrorHandler_init 0 (start_world [])))) =
       (Inr (), (flush 0 (setStdErr 0 (receiveWarning 0 1001 () ''Dropped a frame'' [''frame'']
          (BaseErrorHandler_init 0 (start_world [])))))\<lparr>stderr := Stream 0\<rparr>)
   \<and> printed (snd (del (\<lambda>_. None) 0 (setStdErr 0
        (receiveWarning 0 1001 () ''Dropped a frame'' [''frame'']
      (BaseErrorHandler_init 0 (start_world [])))))) =
       [Warning 1001 () ''Dropped a frame'' [''frame'']]"
proof -
  let ?u = "snd (warn 2002 () [] None
       (setStdErr 0 (BaseErrorHandler_init 0 (start_world [''frame'', ''warn'']))))"
  let ?w = "receiveWarning 0 1001 () ''Dropped a frame'' [''frame'']
      (BaseErrorHandler_init 0 (start_world []))"
  let ?no = "\<lambda>_ :: unit err. None :: error option"
  let ?all = "\<lambda>_ :: unit err. Some OSError"
  have g1: "errList (heap ?u 0) = [] @ Warning 2002 () ''Syntax error compiling'' [''frame''] # []"
    by (simp add: warn_def resolve_msg_def stdWarnings_def resolve_trace_def setStdErr_def
          receiveWarning_def BaseErrorHandler_init_def start_world_def)
  have g2: "\<forall>d \<in> set []. ?all d = None" by simp
  have g3: "?all (Warning 2002 () ''Syntax error compiling'' [''frame'']) = Some OSError" by simp
  from del_flushes_then_restores
    [where w = ?u and self = 0 and raises = ?all and pre = "[]"
       and e = "Warning 2002 () ''Syntax error compiling'' [''frame'']" and rest = "[]"
       and x = OSError] g1 g2 g3
  have z: "del ?all 0 ?u = (Inl OSError, ?u\<lparr>printed := printed ?u @ []\<rparr>)"
    by blast
  have k: "\<forall>r \<in> set (errList (heap ?w 0)). ?no r = None" by simp
  have k': "\<forall>r \<in> set (errList (heap (setStdErr 0 ?w) 0)). ?no r = None" by simp
  have h1: "stderr ?w \<noteq> Handler 0"
    by (simp add: receiveWarning_def BaseErrorHandler_init_def start_world_def)
  have h2: "stderr (setStdErr 0 ?w) = Handler 0" by (simp add: setStdErr_def)
  have h3: "origErr (heap (setStdErr 0 ?w) 0) = Some (Stream 0)"
    by (simp add: setStdErr_def receiveWarning_def BaseErrorHandler_init_def start_world_def)
  from del_flushes_then_restores [where w = ?w and self = 0 and raises = ?no] k h1
  have a0: "del ?no 0 ?w = (Inr (), flush 0 ?w)" by blast
  have a: "fst (del ?no 0 ?w) = Inr ()" by (simp add: a0)
  note r = del_flushes_then_restores
    [where w = "setStdErr 0 ?w" and self = 0 and raises = ?no and t = "Stream 0"]
  from r k' h2 h3
  have b: "del ?no 0 (setStdErr 0 ?w) = (Inr (), (flush 0 (setStdErr 0 ?w))\<lparr>stderr := Stream 0\<rparr>)"
    by blast
  from r k' have c0: "printed (snd (del ?no 0 (setStdErr 0 ?w))) =
      printed (setStdErr 0 ?w) @ errList (heap (setStdErr 0 ?w) 0)"
    by blast
  have c1: "printed (setStdErr 0 ?w) @ errList (heap (setStdErr 0 ?w) 0) =
      [Warning 1001 () ''Dropped a frame'' [''frame'']]"
    by (simp add: setStdErr_def receiveWarning_def BaseErrorHandler_init_def start_world_def)
  from c0 c1 have c: "printed (snd (del ?no 0 (setStdErr 0 ?w))) =
      [Warning 1001 () ''Dropped a frame'' [''frame'']]"
    by (rule trans)
  show ?thesis
    by (rule conjI [OF g1 conjI [OF z conjI [OF h1 conjI [OF a conjI [OF h2 conjI [OF h3
          conjI [OF b c]]]]]]])
qed

text \<open>
  Claim C4 as it is stated fails on a handler built by \<^verbatim>\<open>__init__\<close>, installed by
  \<^verbatim>\<open>setStdErr\<close> over the text stream, and holding one record handed over by
  \<^verbatim>\<open>warn\<close>, when standard output refuses the \<^verbatim>\<open>print\<close> of the flush: \<^verbatim>\<open>__del__\<close>
  raises that exception, the record is still pending, and \<^verbatim>\<open>sys.stderr\<close> is still the
  handler, not the stream that was there before the install.
\<close>

theorem del_raises_counterexample:
  "fst (del (\<lambda>_. Some OSError) 0 (snd (warn 2002 () [] None
       (setStdErr 0 (BaseErrorHandler_init 0 (start_world [''frame'', ''warn'']))))))
     = Inl OSError
   \<and> stderr (snd (del (\<lambda>_. Some OSError) 0 (snd (warn 2002 () [] None
       (setStdErr 0 (BaseErrorHandler_init 0 (start_world [''frame'', ''warn''])))))))
     = Handler 0
   \<and> origErr (heap (snd (del (\<lambda>_. Some OSError) 0 (snd (warn 2002 () [] None
       (setStdErr 0 (BaseErrorHandler_init 0 (start_world [''frame'', ''warn''])))))))
       0) = Some (Stream 0)
   \<and> errList (heap (snd (del (\<lambda>_. Some OSError) 0 (snd (warn 2002 () [] None
       (setStdErr 0 (BaseErrorHandler_init 0 (start_world [''frame'', ''warn''])))))))
       0) = [Warning 2002 () ''Syntax error compiling'' [''frame'']]
   \<and> printed (snd (del (\<lambda>_. Some OSError) 0 (snd (warn 2002 () [] None
       (setStdErr 0 (BaseErrorHandler_init 0 (start_world [''frame'', ''warn''])))))))
     = []"
  by (simp add: del_def flush_or_raise_def warn_def resolve_msg_def stdWarnings_def
        resolve_trace_def setStdErr_def receiveWarning_def BaseErrorHandler_init_def
        start_world_def)

subsection \<open>Dispatch of a warning\<close>

text \<open>
  Claim C5, as the code has it. For every call of \<^verbatim>\<open>warn\<close> whose message resolves
  (a message is given, or the code is a key of \<^verbatim>\<open>stdWarnings\<close>): when the current
  \<^verbatim>\<open>sys.stderr\<close> is a handler, the record of code, object, resolved message and
  resolved trace is handed to its \<^verbatim>\<open>receiveWarning\<close> and nothing is logged or
  printed; otherwise exactly two log calls are made, a warning with the code and the
  message and then a debug message with the header of the trace followed by its
  entries.
\<close>

theorem warn_dispatch:
  assumes "resolve_msg c m = Inr m'"
  shows "(stderr w = Handler a \<longrightarrow>
           warn c ob m tr w = (Inr (), receiveWarning a c ob m' (resolve_trace tr w) w)
           \<and> errList (heap (snd (warn c ob m tr w)) a) =
               errList (heap w a) @ [Warning c ob m' (resolve_trace tr w)]
           \<and> logged (snd (warn c ob m tr w)) = logged w
           \<and> printed (snd (warn c ob m tr w)) = printed w)
       \<and> (stderr w = Stream n \<longrightarrow>
           warn c ob m tr w =
             (Inr (), w\<lparr>logged := logged w @
                 [(WARNING, str_int c @ '': '' @ m'),
                  (DEBUG, ''Warning trace ('' @ str_int c @ ''):'' @ [CHR 0x0A] @
                          concat (resolve_trace tr w))]\<rparr>))"
  using assms
  by (simp add: warn_def Let_def receiveWarning_def logging_warning_def logging_debug_def
        fold_append_concat)

theorem warn_dispatch_witness:
  "resolve_msg 2002 [] = Inr ''Syntax error compiling''
   \<and> stderr (start_world [''frame'', ''warn''] :: unit world) = Stream 0
   \<and> logged (snd (warn 2002 () [] None (start_world [''frame'', ''warn'']))) =
       [(WARNING, ''2002: Syntax error compiling''),
        (DEBUG, ''Warning trace (2002):'' @ [CHR 0x0A] @ ''frame'')]
   \<and> stderr (setStdErr 0 (BaseErrorHandler_init 0 (start_world [''frame'', ''warn'']
         :: unit world))) = Handler 0
   \<and> errList (heap (snd (warn 2002 () [] None
         (setStdErr 0 (BaseErrorHandler_init 0 (start_world [''frame'', ''warn''])))))
         0) = [Warning 2002 () ''Syntax error compiling'' [''frame'']]
   \<and> logged (snd (warn 2002 () [] None
         (setStdErr 0 (BaseErrorHandler_init 0 (start_world [''frame'', ''warn'']))))) = []"
proof -
  let ?w = "start_world [''frame'', ''warn''] :: unit world"
  let ?v = "setStdErr 0 (BaseErrorHandler_init 0 ?w)"
  have h: "resolve_msg 2002 [] = Inr ''Syntax error compiling''"
    by (simp add: resolve_msg_def stdWarnings_def)
  have s1: "stderr ?w = Stream 0" by (simp add: start_world_def)
  have s2: "stderr ?v = Handler 0" by (simp add: setStdErr_def)
  have n: "str_int 2002 = ''2002''" by code_simp
  have t1: "resolve_trace None ?w = [''frame'']"
    by (simp add: resolve_trace_def start_world_def)
  have t2: "resolve_trace None ?v = [''frame'']"
    by (simp add: resolve_trace_def setStdErr_def BaseErrorHandler_init_def start_world_def)
  from warn_dispatch [OF h, where w = ?w and n = 0 and ob = "()" and tr = None] s1
  have a0: "warn 2002 () [] None ?w =
      (Inr (), ?w\<lparr>logged := logged ?w @
         [(WARNING, str_int 2002 @ '': '' @ ''Syntax error compiling''),
          (DEBUG, ''Warning trace ('' @ str_int 2002 @ ''):'' @ [CHR 0x0A] @
                  concat (resolve_trace None ?w))]\<rparr>)"
    by blast
  have a: "logged (snd (warn 2002 () [] None ?w)) =
       [(WARNING, ''2002: Syntax error compiling''),
        (DEBUG, ''Warning trace (2002):'' @ [CHR 0x0A] @ ''frame'')]"
    by (simp add: a0 n t1) (simp add: start_world_def)
  from warn_dispatch [OF h, where w = ?v and a = 0 and ob = "()" and tr = None] s2
  have b0: "errList (heap (snd (warn 2002 () [] None ?v)) 0) =
        errList (heap ?v 0) @ [Warning 2002 () ''Syntax error compiling'' (resolve_trace None ?v)]"
    and c0: "logged (snd (warn 2002 () [] None ?v)) = logged ?v"
    by blast+
  have b: "errList (heap (snd (warn 2002 () [] None ?v)) 0) =
      [Warning 2002 () ''Syntax error compiling'' [''frame'']]"
    by (simp add: b0 t2) (simp add: setStdErr_def BaseErrorHandler_init_def)
  have c: "logged (snd (warn 2002 () [] None ?v)) = []"
    by (simp add: c0) (simp add: setStdErr_def BaseErrorHandler_init_def start_world_def)
  show ?thesis
    by (rule conjI [OF h conjI [OF s1 conjI [OF a conjI [OF s2 conjI [OF b c]]]]])
qed

text \<open>
  Claim C5 as it is stated fails for a code that \<^verbatim>\<open>stdWarnings\<close> lacks, no message
  and a plain \<^verbatim>\<open>sys.stderr\<close>: \<^verbatim>\<open>warn\<close> raises a \<^verbatim>\<open>KeyError\<close> and logs nothing.
\<close>

theorem warn_unknown_code_counterexample:
  "stderr (start_world [''frame'', ''warn''] :: unit world) = Stream 0
   \<and> fst (warn 9999 () [] None (start_world [''frame'', ''warn''])) = Inl KeyError
   \<and> logged (snd (warn 9999 () [] None (start_world [''frame'', ''warn'']))) = []"
  by (simp add: warn_def resolve_msg_def stdWarnings_def start_world_def)

end
